theory Spec2Isabelle
  imports Complex_Main
begin

section \<open>Python values\<close>

text \<open>
  Python floats are modelled as real numbers: the arithmetic of the source is read as
  exact arithmetic, and the literals \<open>0.3\<close>, \<open>0.7\<close>, \<open>0.1\<close> as the fractions they
  denote. Rounding of IEEE doubles is outside that reading; the volatility, where the
  rounding shows, is modelled a second time in double-precision arithmetic. Python
  strings are modelled as \<open>string\<close>, one \<open>char\<close> per code point, so texts range over the
  code points below 256.
\<close>

datatype py_error = IndexError | LibraryError

definition py_index :: "'a list \<Rightarrow> nat \<Rightarrow> py_error + 'a" where
  \<comment> \<open>\<open>xs[i]\<close> for a non-negative index: IndexError past the end.\<close>
  "py_index xs i = (if i < length xs then Inr (xs ! i) else Inl IndexError)"

section \<open>Trend analysis (src/src/analyzer.py)\<close>

subsection \<open>Result types\<close>

text \<open>
  A progression entry carries message_index, score, label and cumulative_avg, in this
  order.
\<close>

datatype progression_entry = ProgressionEntry nat real string real

text \<open>
  A key moment is a dictionary whose \<open>type\<close> entry is \<open>significant_shift\<close> or
  \<open>extreme_sentiment\<close>; the constructor carries the other entries in the order of the
  source: message_index, direction, magnitude, from_score, to_score, from_label, to_label
  for a shift, and message_index, sentiment, score for an extreme.
\<close>

datatype key_moment =
  SignificantShift nat string real real real string string
| ExtremeSentiment nat string real

text \<open>
  The description is a formatted sentence (two-decimal floats and an arrow character);
  the model keeps which template was chosen and the numbers it is filled with.
\<close>

datatype trend_description =
  NotEnoughMessages
| StartedNegativeShiftedPositive real real
| BecameIncreasinglyPositive real real
| StartedPositiveShiftedNegative real real
| BecameLessPositive real real
| RemainedStable real

text \<open>
  The dictionary returned by \<open>analyze_trend\<close>. The entries \<open>key_moments\<close> and
  \<open>volatility\<close> exist only on the full path, hence the options.
\<close>

record trend_result =
  trend :: string
  description :: trend_description
  first_half_avg :: real
  second_half_avg :: real
  progression :: "progression_entry list"
  key_moments :: "key_moment list option"
  volatility :: "real option"

subsection \<open>Operations\<close>

definition determine_trend :: "real \<Rightarrow> real \<Rightarrow> string" where
  "determine_trend first_avg second_avg =
     (let threshold = 1 / 10 in
      if second_avg - first_avg > threshold then ''improving''
      else if first_avg - second_avg > threshold then ''declining''
      else ''stable'')"

definition generate_trend_description :: "string \<Rightarrow> real \<Rightarrow> real \<Rightarrow> trend_description" where
  "generate_trend_description tr first_avg second_avg =
     (if tr = ''improving'' then
        (if first_avg < - (1 / 10) then StartedNegativeShiftedPositive first_avg second_avg
         else BecameIncreasinglyPositive first_avg second_avg)
      else if tr = ''declining'' then
        (if second_avg < - (1 / 10) then StartedPositiveShiftedNegative first_avg second_avg
         else BecameLessPositive first_avg second_avg)
      else RemainedStable first_avg)"

definition calculate_progression :: "real list \<Rightarrow> string list \<Rightarrow> progression_entry list" where
  "calculate_progression scores labels =
     map (\<lambda>(i, (s, l)).
            ProgressionEntry (i + 1) s l (sum_list (take (i + 1) scores) / real (i + 1)))
         (enumerate 0 (zip scores labels))"

definition key_moments_step ::
  "real list \<Rightarrow> string list \<Rightarrow> nat \<Rightarrow> key_moment list \<Rightarrow> py_error + key_moment list" where
  \<comment> \<open>One pass of the loop body, for index \<open>i\<close>, on the list built so far.\<close>
  "key_moments_step scores labels i km =
     (let change = \<bar>scores ! i - scores ! (i - 1)\<bar> in
      case (if change > 3 / 10 then
              (let direction = (if scores ! i > scores ! (i - 1) then ''positive'' else ''negative'') in
               case py_index labels (i - 1) of
                 Inl e \<Rightarrow> Inl e
               | Inr from_label \<Rightarrow>
                   (case py_index labels i of
                      Inl e \<Rightarrow> Inl e
                    | Inr to_label \<Rightarrow>
                        Inr (km @ [SignificantShift (i + 1) direction change
                                     (scores ! (i - 1)) (scores ! i) from_label to_label])))
            else Inr km) of
        Inl e \<Rightarrow> Inl e
      | Inr km1 \<Rightarrow>
          (if \<bar>scores ! i\<bar> > 7 / 10 then
             (case py_index labels i of
                Inl e \<Rightarrow> Inl e
              | Inr l \<Rightarrow> Inr (km1 @ [ExtremeSentiment (i + 1) l (scores ! i)]))
           else Inr km1))"

fun key_moments_loop ::
  "real list \<Rightarrow> string list \<Rightarrow> nat list \<Rightarrow> key_moment list \<Rightarrow> py_error + key_moment list" where
  "key_moments_loop scores labels [] km = Inr km"
| "key_moments_loop scores labels (i # rest) km =
     (case key_moments_step scores labels i km of
        Inl e \<Rightarrow> Inl e
      | Inr km' \<Rightarrow> key_moments_loop scores labels rest km')"

definition identify_key_moments :: "real list \<Rightarrow> string list \<Rightarrow> py_error + key_moment list" where
  "identify_key_moments scores labels =
     (if length scores < 2 then Inr []
      else key_moments_loop scores labels [1..<length scores] [])"

definition calculate_volatility :: "real list \<Rightarrow> real" where
  "calculate_volatility scores =
     (if length scores < 2 then 0
      else
        (let mean = sum_list scores / real (length scores);
             variance = sum_list (map (\<lambda>x. (x - mean) ^ 2) scores) / real (length scores)
         in variance powr (1 / 2)))"

definition analyze_trend :: "real list \<Rightarrow> string list \<Rightarrow> py_error + trend_result" where
  "analyze_trend sentiment_scores sentiment_labels =
     (if sentiment_scores = [] \<or> length sentiment_scores < 2 then
        Inr \<lparr>trend = ''insufficient_data'', description = NotEnoughMessages,
             first_half_avg = 0, second_half_avg = 0, progression = [],
             key_moments = None, volatility = None\<rparr>
      else
        (let mid_point = length sentiment_scores div 2;
             first_half = take mid_point sentiment_scores;
             second_half = drop mid_point sentiment_scores;
             first_avg = (if first_half \<noteq> [] then sum_list first_half / real (length first_half) else 0);
             second_avg = (if second_half \<noteq> [] then sum_list second_half / real (length second_half) else 0);
             tr = determine_trend first_avg second_avg;
             descr = generate_trend_description tr first_avg second_avg;
             prog = calculate_progression sentiment_scores sentiment_labels
         in case identify_key_moments sentiment_scores sentiment_labels of
              Inl e \<Rightarrow> Inl e
            | Inr km \<Rightarrow>
                Inr \<lparr>trend = tr, description = descr,
                     first_half_avg = first_avg, second_half_avg = second_avg,
                     progression = prog, key_moments = Some km,
                     volatility = Some (calculate_volatility sentiment_scores)\<rparr>))"

section \<open>Sentiment engine (src/src/sentiment.py)\<close>

subsection \<open>Characters and strings\<close>

definition py_isspace :: "char \<Rightarrow> bool" where
  \<comment> \<open>Whitespace of \<open>str.strip\<close> and of \<open>\s\<close>, on the code points below 256.\<close>
  "py_isspace c =
     (let n = (of_char c :: nat) in
      (9 \<le> n \<and> n \<le> 13) \<or> (28 \<le> n \<and> n \<le> 32) \<or> n = 133 \<or> n = 160)"

definition py_isword :: "char \<Rightarrow> bool" where
  \<comment> \<open>The class \<open>\w\<close> of a Unicode pattern, on the code points below 256.\<close>
  "py_isword c =
     (let n = (of_char c :: nat) in
      (48 \<le> n \<and> n \<le> 57) \<or> (65 \<le> n \<and> n \<le> 90) \<or> n = 95 \<or> (97 \<le> n \<and> n \<le> 122) \<or>
      n = 170 \<or> n = 178 \<or> n = 179 \<or> n = 181 \<or> n = 185 \<or> n = 186 \<or>
      (188 \<le> n \<and> n \<le> 190) \<or> (192 \<le> n \<and> n \<le> 214) \<or> (216 \<le> n \<and> n \<le> 246) \<or>
      (248 \<le> n \<and> n \<le> 255))"

definition py_lower_char :: "char \<Rightarrow> char" where
  "py_lower_char c =
     (let n = (of_char c :: nat) in
      if (65 \<le> n \<and> n \<le> 90) \<or> (192 \<le> n \<and> n \<le> 214) \<or> (216 \<le> n \<and> n \<le> 222)
      then char_of (n + 32) else c)"

definition py_lower :: "string \<Rightarrow> string" where
  "py_lower text = map py_lower_char text"

definition py_strip :: "string \<Rightarrow> string" where
  "py_strip text = rev (dropWhile py_isspace (rev (dropWhile py_isspace text)))"

fun starts_with :: "string \<Rightarrow> string \<Rightarrow> bool" where
  \<comment> \<open>\<open>starts_with p s\<close>: \<open>p\<close> is a prefix of \<open>s\<close>.\<close>
  "starts_with [] s = True"
| "starts_with (p # ps) [] = False"
| "starts_with (p # ps) (c # cs) = (if p = c then starts_with ps cs else False)"

fun py_in :: "string \<Rightarrow> string \<Rightarrow> bool" where
  \<comment> \<open>\<open>py_in p s\<close> is Python's \<open>p in s\<close> on strings.\<close>
  "py_in p [] = (p = [])"
| "py_in p (c # cs) = (starts_with p (c # cs) \<or> py_in p cs)"

subsection \<open>Regular expressions\<close>

text \<open>
  The patterns of the engine use literals, alternation, \<open>\s+\<close>, \<open>.*?\<close> and \<open>\b\<close>,
  compiled with IGNORECASE. \<open>re_match r (prev, s)\<close> lists every way \<open>r\<close> can match at
  the head of \<open>s\<close>, as the character before the end of the match and the remaining
  text; \<open>prev\<close> is the character before \<open>s\<close>, for \<open>\b\<close>.
\<close>

datatype regex =
  Lit string
| Spaces
| AnyLazy
| WordB
| Alt "regex list"
| Seq "regex list"

fun match_lit :: "string \<Rightarrow> char option \<times> string \<Rightarrow> (char option \<times> string) option" where
  \<comment> \<open>A literal, character by character, comparing lower-cased characters.\<close>
  "match_lit [] st = Some st"
| "match_lit (p # ps) (prev, []) = None"
| "match_lit (p # ps) (prev, c # cs) =
     (if py_lower_char p = py_lower_char c then match_lit ps (Some c, cs) else None)"

fun after_spaces :: "string \<Rightarrow> (char option \<times> string) list" where
  \<comment> \<open>\<open>\s+\<close>: the states after one, two, ... leading whitespace characters.\<close>
  "after_spaces [] = []"
| "after_spaces (c # cs) = (if py_isspace c then (Some c, cs) # after_spaces cs else [])"

fun after_any :: "string \<Rightarrow> (char option \<times> string) list" where
  \<comment> \<open>\<open>.\<close> repeated at least once: any character but the newline.\<close>
  "after_any [] = []"
| "after_any (c # cs) = (if c \<noteq> CHR 0x0A then (Some c, cs) # after_any cs else [])"

definition is_word_opt :: "char option \<Rightarrow> bool" where
  "is_word_opt c = (case c of None \<Rightarrow> False | Some x \<Rightarrow> py_isword x)"

definition first_char :: "string \<Rightarrow> char option" where
  "first_char s = (case s of [] \<Rightarrow> None | c # _ \<Rightarrow> Some c)"

fun re_match :: "regex \<Rightarrow> char option \<times> string \<Rightarrow> (char option \<times> string) list" where
  "re_match (Lit w) st = (case match_lit w st of None \<Rightarrow> [] | Some st' \<Rightarrow> [st'])"
| "re_match Spaces (prev, s) = after_spaces s"
| "re_match AnyLazy (prev, s) = (prev, s) # after_any s"
| "re_match WordB (prev, s) =
     (if is_word_opt prev \<noteq> is_word_opt (first_char s) then [(prev, s)] else [])"
| "re_match (Alt rs) st = concat (map (\<lambda>r. re_match r st) rs)"
| "re_match (Seq []) st = [st]"
| "re_match (Seq (r # rs)) st = concat (map (re_match (Seq rs)) (re_match r st))"

fun search_from :: "regex \<Rightarrow> char option \<Rightarrow> string \<Rightarrow> bool" where
  \<comment> \<open>The scan of \<open>search\<close>: try the pattern at each position, left to right.\<close>
  "search_from r prev [] = (re_match r (prev, []) \<noteq> [])"
| "search_from r prev (c # cs) =
     (if re_match r (prev, c # cs) \<noteq> [] then True else search_from r (Some c) cs)"

definition re_search :: "regex \<Rightarrow> string \<Rightarrow> bool" where
  \<comment> \<open>\<open>pattern.search(text)\<close> finds a match.\<close>
  "re_search r text = search_from r None text"

definition search_any :: "regex list \<Rightarrow> string \<Rightarrow> bool" where
  \<comment> \<open>The loop over compiled patterns: some pattern finds a match in the text.\<close>
  "search_any patterns text = list_ex (\<lambda>pattern. re_search pattern text) patterns"

definition words :: "string list \<Rightarrow> regex" where
  "words ws = Alt (map Lit ws)"

definition negative_comparative_patterns :: "regex list" where
  "negative_comparative_patterns =
    [Seq [WordB, words [''better'', ''good'', ''great'', ''excellent'', ''superior'', ''improved''],
          Spaces, Lit ''than'', Spaces,
          Alt [Lit ''this'', Lit ''that'', Lit ''current'', Lit ''now'', Lit ''today'',
               Seq [Lit ''this'', Spaces, Lit ''one''], Seq [Lit ''that'', Spaces, Lit ''one'']]],
     Seq [WordB, words [''better'', ''good'', ''great'', ''excellent'', ''superior'', ''improved''],
          Spaces, Lit ''than'', Spaces, words [''it'', ''they'', ''we'', ''you''],
          Spaces, words [''is'', ''are'', ''was'', ''were'', ''now'']],
     Seq [WordB, words [''last'', ''previous'', ''earlier'', ''before''],
          Spaces, words [''experience'', ''time'', ''one'', ''service'', ''product''],
          Spaces, words [''was'', ''were''],
          Spaces, words [''better'', ''good'', ''great'', ''excellent''], Spaces, Lit ''than''],
     Seq [WordB, words [''previous'', ''last'', ''earlier'', ''before''],
          Spaces, words [''time'', ''experience''], Spaces, Lit ''was'', Spaces, Lit ''better''],
     Seq [WordB, words [''not'', ''isn'' @ [CHR 0x27] @ ''t'', ''aren'' @ [CHR 0x27] @ ''t'',
                        ''wasn'' @ [CHR 0x27] @ ''t'', ''weren'' @ [CHR 0x27] @ ''t''],
          Spaces, words [''as'', ''so''],
          Spaces, words [''good'', ''great'', ''excellent'', ''nice'', ''well''],
          Spaces, Lit ''as'',
          Spaces, words [''before'', ''previously'', ''earlier'', ''last'', ''it'', ''they'']],
     Seq [WordB, words [''this'', ''that'', ''it'', ''they''],
          Spaces, words [''is'', ''are'', ''was'', ''were''], Spaces, Lit ''not'',
          Spaces, words [''as'', ''so''],
          Spaces, words [''good'', ''great'', ''excellent'', ''nice'', ''well'']],
     Seq [WordB, words [''worse'', ''worsened'', ''declined'', ''deteriorated''],
          Spaces, Lit ''than'',
          Spaces, words [''before'', ''previously'', ''earlier'', ''last'']],
     Seq [WordB, Seq [Lit ''used'', Spaces, Lit ''to'', Spaces, Lit ''be''],
          Spaces, words [''better'', ''good'', ''great'']],
     Seq [WordB,
          Alt [Lit (''didn'' @ [CHR 0x27] @ ''t''), Lit (''don'' @ [CHR 0x27] @ ''t''),
               Lit (''doesn'' @ [CHR 0x27] @ ''t''), Lit ''didnt'', Lit ''dont'', Lit ''doesnt'',
               Seq [Lit ''did'', Spaces, Lit ''not''], Seq [Lit ''do'', Spaces, Lit ''not''],
               Seq [Lit ''does'', Spaces, Lit ''not'']],
          Spaces, Lit ''find'', AnyLazy,
          words [''interesting'', ''good'', ''great'', ''excellent'', ''nice'', ''enjoyable'',
                 ''engaging'']],
     Seq [WordB, words [''not'', ''isn'' @ [CHR 0x27] @ ''t'', ''aren'' @ [CHR 0x27] @ ''t'',
                        ''wasn'' @ [CHR 0x27] @ ''t'', ''weren'' @ [CHR 0x27] @ ''t''],
          Spaces, words [''interesting'', ''good'', ''great'', ''excellent'', ''nice'',
                         ''enjoyable'', ''engaging'', ''worthwhile'']],
     Seq [WordB, words [''rubbish'', ''nonsense'', ''stupid'', ''idiotic'', ''ridiculous'',
                        ''terrible'', ''awful'', ''horrible'', ''disgusting'', ''pathetic'']],
     Seq [WordB, Alt [Lit (''don'' @ [CHR 0x27] @ ''t''), Seq [Lit ''do'', Spaces, Lit ''not'']],
          Spaces, Lit ''talk'',
          Spaces, words [''rubbish'', ''nonsense'', ''garbage'', ''trash'', ''crap'']]]"

definition positive_comparative_patterns :: "regex list" where
  "positive_comparative_patterns =
    [Seq [WordB, words [''better'', ''good'', ''great'', ''excellent'', ''improved''],
          Spaces, Lit ''than'',
          Spaces, words [''before'', ''previously'', ''earlier'', ''last'']],
     Seq [WordB, words [''improved'', ''improving'', ''better''],
          Spaces, words [''than'', ''from''],
          Spaces, words [''before'', ''previously'', ''earlier'', ''last'']]]"

subsection \<open>Analyzers\<close>

text \<open>
  The result of analysing one text is a dictionary. Every analyzer sets \<open>score\<close>,
  \<open>label\<close> and \<open>confidence\<close>; the other entries exist for some analyzers or after an
  adjustment only, hence the options.
\<close>

record sentiment_result =
  score :: real
  label :: string
  confidence :: real
  compound :: "real option"
  positive :: "real option"
  neutral :: "real option"
  negative :: "real option"
  polarity :: "real option"
  subjectivity :: "real option"
  raw_label :: "string option"
  raw_score :: "real option"
  adjusted_for_comparison :: "bool option"

definition plain_result :: "real \<Rightarrow> string \<Rightarrow> real \<Rightarrow> sentiment_result" where
  \<comment> \<open>The dictionary with the three entries \<open>score\<close>, \<open>label\<close>, \<open>confidence\<close> only.\<close>
  "plain_result s l c =
     \<lparr>score = s, label = l, confidence = c, compound = None, positive = None,
      neutral = None, negative = None, polarity = None, subjectivity = None,
      raw_label = None, raw_score = None, adjusted_for_comparison = None\<rparr>"

text \<open>
  The three libraries are outside the repository. An analyzer carries the library call
  it wraps, which may raise: VADER's \<open>polarity_scores\<close> gives compound, pos, neu and neg;
  TextBlob gives polarity and subjectivity; the Transformers pipeline gives the label and
  the score of its first result.
\<close>

datatype analyzer =
  VADERAnalyzer "string \<Rightarrow> py_error + real \<times> real \<times> real \<times> real"
| TextBlobAnalyzer "string \<Rightarrow> py_error + real \<times> real"
| TransformersAnalyzer "string \<Rightarrow> py_error + string \<times> real"

definition is_blank :: "string \<Rightarrow> bool" where
  \<comment> \<open>\<open>not text or not text.strip()\<close>\<close>
  "is_blank text = (text = [] \<or> py_strip text = [])"

fun get_label :: "analyzer \<Rightarrow> real \<Rightarrow> string" where
  "get_label (VADERAnalyzer lib) s =
     (if s \<ge> 5 / 100 then ''Positive'' else if s \<le> - (5 / 100) then ''Negative'' else ''Neutral'')"
| "get_label (TextBlobAnalyzer lib) s =
     (if s > 1 / 10 then ''Positive'' else if s < - (1 / 10) then ''Negative'' else ''Neutral'')"
| "get_label (TransformersAnalyzer lib) s =
     (if s > 5 / 10 then ''Positive'' else if s < - (5 / 10) then ''Negative'' else ''Neutral'')"

fun analyze :: "analyzer \<Rightarrow> string \<Rightarrow> py_error + sentiment_result" where
  "analyze (VADERAnalyzer polarity_scores) text =
     (if is_blank text then
        Inr ((plain_result 0 ''Neutral'' 0)
               \<lparr>compound := Some 0, positive := Some 0, neutral := Some 0, negative := Some 0\<rparr>)
      else
        (case polarity_scores text of
           Inl e \<Rightarrow> Inl e
         | Inr (cmpd, pos, neu, neg) \<Rightarrow>
             Inr ((plain_result cmpd (get_label (VADERAnalyzer polarity_scores) cmpd) \<bar>cmpd\<bar>)
                    \<lparr>compound := Some cmpd, positive := Some pos, neutral := Some neu,
                     negative := Some neg\<rparr>)))"
| "analyze (TextBlobAnalyzer sentiment) text =
     (if is_blank text then
        Inr ((plain_result 0 ''Neutral'' 0) \<lparr>polarity := Some 0, subjectivity := Some 0\<rparr>)
      else
        (case sentiment text of
           Inl e \<Rightarrow> Inl e
         | Inr (pol, subj) \<Rightarrow>
             Inr ((plain_result pol (get_label (TextBlobAnalyzer sentiment) pol) \<bar>pol\<bar>)
                    \<lparr>polarity := Some pol, subjectivity := Some subj\<rparr>)))"
| "analyze (TransformersAnalyzer pipeline) text =
     (if is_blank text then Inr (plain_result 0 ''NEUTRAL'' 0)
      else
        (case pipeline text of
           Inl e \<Rightarrow> Inr (plain_result 0 ''Neutral'' 0)
         | Inr (lab, sc) \<Rightarrow>
             (let (normalized_score, label_str) =
                    (if lab = ''POSITIVE'' then (sc, ''Positive'')
                     else if lab = ''NEGATIVE'' then (- sc, ''Negative'')
                     else (0, ''Neutral''))
              in Inr ((plain_result normalized_score label_str sc)
                        \<lparr>raw_label := Some lab, raw_score := Some sc\<rparr>))))"

subsection \<open>The comparative adjuster\<close>

definition clamp_score :: "real \<Rightarrow> real" where
  "clamp_score x = max (- 1) (min 1 x)"

definition pejorative_phrases :: "string list" where
  "pejorative_phrases =
     [''rubbish'', ''nonsense'', ''garbage'', ''trash'', ''crap'', ''stupid'', ''idiotic'']"

definition find_phrases :: "string list" where
  "find_phrases =
     [''didn'' @ [CHR 0x27] @ ''t find'', ''don'' @ [CHR 0x27] @ ''t find'', ''not find'',
      ''didnt find'', ''dont find'']"

definition positive_adjectives :: "string list" where
  "positive_adjectives = [''interesting'', ''good'', ''great'', ''enjoyable'', ''engaging'']"

definition any_in :: "string list \<Rightarrow> string \<Rightarrow> bool" where
  \<comment> \<open>\<open>any(phrase in text_lower for phrase in phrases)\<close>\<close>
  "any_in phrases text_lower = list_ex (\<lambda>phrase. py_in phrase text_lower) phrases"

definition negative_adjusted_score :: "string \<Rightarrow> real \<Rightarrow> real" where
  \<comment> \<open>The score chosen once a negative pattern has matched, before clamping.\<close>
  "negative_adjusted_score text_lower original_score =
     (if any_in pejorative_phrases text_lower then - (7 / 10)
      else if any_in find_phrases text_lower then
        (if any_in positive_adjectives text_lower then - (6 / 10) else - (4 / 10))
      else if original_score > 0 then - \<bar>original_score\<bar> - 4 / 10
      else original_score - 4 / 10)"

definition positive_adjusted_score :: "real \<Rightarrow> real" where
  "positive_adjusted_score original_score =
     (if original_score < 0 then \<bar>original_score\<bar> + 2 / 10 else original_score + 2 / 10)"

definition apply_adjustment :: "analyzer \<Rightarrow> sentiment_result \<Rightarrow> real \<Rightarrow> sentiment_result" where
  \<comment> \<open>The five assignments to \<open>base_result\<close>, the same in both branches.\<close>
  "apply_adjustment a base_result adjusted_score =
     base_result\<lparr>score := adjusted_score, compound := Some adjusted_score,
                 label := get_label a adjusted_score, confidence := \<bar>adjusted_score\<bar>,
                 adjusted_for_comparison := Some True\<rparr>"

definition detect_comparative_sentiment ::
  "analyzer \<Rightarrow> string \<Rightarrow> sentiment_result \<Rightarrow> sentiment_result" where
  "detect_comparative_sentiment a text base_result =
     (let text_lower = py_lower text in
      if search_any negative_comparative_patterns text then
        apply_adjustment a base_result
          (clamp_score (negative_adjusted_score text_lower (score base_result)))
      else if search_any positive_comparative_patterns text then
        apply_adjustment a base_result
          (clamp_score (positive_adjusted_score (score base_result)))
      else base_result)"

definition analyze_text :: "analyzer \<Rightarrow> string \<Rightarrow> sentiment_result" where
  \<comment> \<open>The \<open>try\<close> block: any exception of the base analysis gives the neutral default.\<close>
  "analyze_text a text =
     (case analyze a text of
        Inl e \<Rightarrow> plain_result 0 ''Neutral'' 0
      | Inr result \<Rightarrow> detect_comparative_sentiment a text result)"

subsection \<open>Conversation analysis\<close>

text \<open>
  A message is a dictionary (of which only the string entries matter, \<open>text\<close> among
  them), a string, or any other value.
\<close>

datatype message = DictMsg "string \<rightharpoonup> string" | StrMsg string | OtherMsg

record label_counts =
  Positive :: nat
  Negative :: nat
  Neutral :: nat

text \<open>
  The dictionary returned by \<open>analyze_conversation\<close>; \<open>label_distribution\<close>,
  \<open>scores\<close> and \<open>labels\<close> exist only when some message was analysed.
\<close>

record conversation_result =
  overall_sentiment :: string
  average_score :: real
  total_messages :: nat
  reasoning :: string
  label_distribution :: "label_counts option"
  scores :: "real list option"
  labels :: "string list option"

definition digit_char :: "nat \<Rightarrow> char" where
  "digit_char d = char_of (48 + d)"

function str_nat :: "nat \<Rightarrow> string" where
  \<comment> \<open>\<open>str(n)\<close>, as an f-string renders a count.\<close>
  "str_nat n = (if n < 10 then [digit_char n] else str_nat (n div 10) @ [digit_char (n mod 10)])"
  by pat_completeness auto
termination
  by (relation "measure id") auto

declare str_nat.simps [simp del]

definition generate_reasoning ::
  "(real \<Rightarrow> string) \<Rightarrow> real \<Rightarrow> label_counts \<Rightarrow> nat \<Rightarrow> string \<Rightarrow> string" where
  \<comment> \<open>\<open>format_3f\<close> renders a float with three decimals (\<open>:.3f\<close>).\<close>
  "generate_reasoning format_3f avg_score counts total_n overall_label =
     (let positive_count = Positive counts;
          negative_count = Negative counts;
          neutral_count = Neutral counts
      in
      if overall_label = ''Negative'' then
        (if negative_count > positive_count then
           ''Generally negative conversation with '' @ str_nat negative_count @ ''/'' @
           str_nat total_n @
           '' negative messages. User expressed dissatisfaction or concerns.''
         else if negative_count = positive_count then
           ''Mixed conversation with negative tone. Equal negative and positive messages ('' @
           str_nat negative_count @ '' each), but overall sentiment is negative.''
         else
           ''Conversation with negative overall tone despite '' @ str_nat positive_count @
           '' positive messages. Strong negative statements influenced the assessment.'')
      else if overall_label = ''Positive'' then
        (if positive_count > negative_count then
           ''Generally positive conversation with '' @ str_nat positive_count @ ''/'' @
           str_nat total_n @
           '' positive messages. User expressed satisfaction or positive feedback.''
         else if positive_count = negative_count then
           ''Mixed conversation with positive tone. Equal positive and negative messages ('' @
           str_nat positive_count @ '' each), but overall sentiment is positive.''
         else
           ''Conversation with positive overall tone. Average sentiment score of '' @
           format_3f avg_score @ '' indicates positive engagement.'')
      else
        ''Neutral conversation with balanced sentiment. Distribution: '' @
        str_nat positive_count @ '' positive, '' @ str_nat negative_count @ '' negative, '' @
        str_nat neutral_count @ '' neutral messages.'')"

definition message_text :: "message \<Rightarrow> string option" where
  \<comment> \<open>The text the loop analyses for a message; \<open>None\<close> when it skips the message.\<close>
  "message_text msg =
     (case msg of DictMsg d \<Rightarrow> d ''text'' | StrMsg s \<Rightarrow> Some s | OtherMsg \<Rightarrow> None)"

definition overall_label_of ::
  "nat \<Rightarrow> nat \<Rightarrow> nat \<Rightarrow> nat \<Rightarrow> real \<Rightarrow> string" where
  \<comment> \<open>The decision chain on the counts and the average.\<close>
  "overall_label_of positive_count negative_count strong_negative_count strong_positive_count
       avg_score =
     (if negative_count > positive_count \<and>
         (int negative_count - int positive_count \<ge> 1 \<or> strong_negative_count > 0)
      then ''Negative''
      else if positive_count > negative_count \<and> int positive_count - int negative_count \<ge> 2
      then ''Positive''
      else if strong_negative_count > 0 \<and> negative_count \<ge> positive_count then ''Negative''
      else if strong_positive_count > 0 \<and> positive_count > negative_count then ''Positive''
      else if avg_score < - (1 / 10) then ''Negative''
      else if avg_score > 1 / 10 then ''Positive''
      else ''Neutral'')"

definition analyze_conversation ::
  "(real \<Rightarrow> string) \<Rightarrow> analyzer \<Rightarrow> message list \<Rightarrow> conversation_result" where
  "analyze_conversation format_3f a messages =
     (if messages = [] then
        \<lparr>overall_sentiment = ''Neutral'', average_score = 0, total_messages = 0,
         reasoning = ''No messages to analyze'', label_distribution = None,
         scores = None, labels = None\<rparr>
      else
        (let results = map (analyze_text a) (List.map_filter message_text messages);
             ss = map score results;
             ls = map label results
         in
         if ss = [] then
           \<lparr>overall_sentiment = ''Neutral'', average_score = 0, total_messages = 0,
            reasoning = ''No valid messages to analyze'', label_distribution = None,
            scores = None, labels = None\<rparr>
         else
           (let avg_score = sum_list ss / real (length ss);
                counts = \<lparr>Positive = count_list ls ''Positive'',
                          Negative = count_list ls ''Negative'',
                          Neutral = count_list ls ''Neutral''\<rparr>;
                total = length ls;
                strong_negative_count = length (filter (\<lambda>s. s < - (3 / 10)) ss);
                strong_positive_count = length (filter (\<lambda>s. s > 3 / 10) ss);
                overall_label =
                  overall_label_of (Positive counts) (Negative counts) strong_negative_count
                    strong_positive_count avg_score
            in
            \<lparr>overall_sentiment = overall_label, average_score = avg_score,
             total_messages = total,
             reasoning = generate_reasoning format_3f avg_score counts total overall_label,
             label_distribution = Some counts, scores = Some ss, labels = Some ls\<rparr>)))"

subsection \<open>Insights (src/src/analyzer.py)\<close>

definition is_significant_shift :: "key_moment \<Rightarrow> bool" where
  "is_significant_shift m =
     (case m of SignificantShift _ _ _ _ _ _ _ \<Rightarrow> True | ExtremeSentiment _ _ _ \<Rightarrow> False)"

definition summarize_insights :: "trend_result \<Rightarrow> conversation_result \<Rightarrow> string list" where
  "summarize_insights trend_analysis overall =
     (let insights0 =
            (if trend trend_analysis = ''improving'' then
               [''Conversation mood improved over time'']
             else if trend trend_analysis = ''declining'' then
               [''Conversation mood declined over time'']
             else [''Sentiment remained relatively consistent'']);
          insights1 =
            (case key_moments trend_analysis of
               None \<Rightarrow> insights0
             | Some km \<Rightarrow>
                 if km \<noteq> [] then
                   (let significant_shifts = filter is_significant_shift km in
                    if significant_shifts \<noteq> [] then
                      insights0 @ [''Detected '' @ str_nat (length significant_shifts) @
                                   '' significant sentiment shift(s)'']
                    else insights0)
                 else insights0);
          insights2 =
            (case label_distribution overall of
               None \<Rightarrow> insights1
             | Some distr \<Rightarrow>
                 (let total = Positive distr + Negative distr + Neutral distr in
                  if Positive distr > Negative distr then
                    insights1 @ [''Predominantly positive messages ('' @
                                 str_nat (Positive distr) @ ''/'' @ str_nat total @ '')'']
                  else if Negative distr > Positive distr then
                    insights1 @ [''Predominantly negative messages ('' @
                                 str_nat (Negative distr) @ ''/'' @ str_nat total @ '')'']
                  else insights1 @ [''Balanced mix of positive and negative messages'']));
          vol = (case volatility trend_analysis of None \<Rightarrow> 0 | Some v \<Rightarrow> v)
      in
      if vol > 3 / 10 then
        insights2 @ [''High sentiment volatility - mood changed frequently'']
      else if vol < 1 / 10 then
        insights2 @ [''Low sentiment volatility - consistent emotional tone'']
      else insights2)"

section \<open>Volatility in double-precision arithmetic\<close>




















section \<open>Specification-side definitions\<close>





text \<open>
  A message the conversation analysis accepts: a string, or a dictionary with a
  \<open>text\<close> entry.
\<close>

definition is_valid_message :: "message \<Rightarrow> bool" where
  "is_valid_message msg =
     (case msg of DictMsg d \<Rightarrow> ''text'' \<in> dom d | StrMsg s \<Rightarrow> True | OtherMsg \<Rightarrow> False)"

text \<open>The sentences of the insight summary, by kind.\<close>

definition trend_sentence :: "string \<Rightarrow> string" where
  "trend_sentence tr =
     (if tr = ''improving'' then ''Conversation mood improved over time''
      else if tr = ''declining'' then ''Conversation mood declined over time''
      else ''Sentiment remained relatively consistent'')"

definition is_shift_sentence :: "string \<Rightarrow> bool" where
  "is_shift_sentence s = starts_with ''Detected '' s"

definition is_distribution_sentence :: "string \<Rightarrow> bool" where
  "is_distribution_sentence s =
     (starts_with ''Predominantly '' s \<or> s = ''Balanced mix of positive and negative messages'')"

definition is_volatility_sentence :: "string \<Rightarrow> bool" where
  "is_volatility_sentence s =
     (s = ''High sentiment volatility - mood changed frequently'' \<or>
      s = ''Low sentiment volatility - consistent emotional tone'')"

text \<open>
  The three optional parts of the insight summary, each of at most one sentence.
\<close>

definition shift_part :: "trend_result \<Rightarrow> string list" where
  "shift_part t =
     (case key_moments t of
        None \<Rightarrow> []
      | Some km \<Rightarrow>
          if filter is_significant_shift km \<noteq> [] then
            [''Detected '' @ str_nat (length (filter is_significant_shift km)) @
             '' significant sentiment shift(s)'']
          else [])"

definition distribution_part :: "conversation_result \<Rightarrow> string list" where
  "distribution_part ov =
     (case label_distribution ov of
        None \<Rightarrow> []
      | Some d \<Rightarrow>
          if Positive d > Negative d then
            [''Predominantly positive messages ('' @ str_nat (Positive d) @ ''/'' @
             str_nat (Positive d + Negative d + Neutral d) @ '')'']
          else if Negative d > Positive d then
            [''Predominantly negative messages ('' @ str_nat (Negative d) @ ''/'' @
             str_nat (Positive d + Negative d + Neutral d) @ '')'']
          else [''Balanced mix of positive and negative messages''])"

definition volatility_part :: "trend_result \<Rightarrow> string list" where
  "volatility_part t =
     (let vol = (case volatility t of None \<Rightarrow> 0 | Some v \<Rightarrow> v) in
      if vol > 3 / 10 then [''High sentiment volatility - mood changed frequently'']
      else if vol < 1 / 10 then [''Low sentiment volatility - consistent emotional tone'']
      else [])"

text \<open>
  A library stand-in for concrete runs: a VADER scorer that gives every text the same
  compound score.
\<close>

definition constant_vader :: "real \<Rightarrow> string \<Rightarrow> py_error + real \<times> real \<times> real \<times> real" where
  "constant_vader c text = Inr (c, 0, 1, 0)"

definition no_format :: "real \<Rightarrow> string" where
  "no_format x = ''?''"

section \<open>Properties\<close>

subsection \<open>Volatility\<close>






subsection \<open>Rounding to a double\<close>






















subsection \<open>Runs in double-precision arithmetic\<close>


















































































subsection \<open>Key moments\<close>








subsection \<open>Insufficient data\<close>

lemma determine_trend_cases:
  "determine_trend x y = ''improving'' \<or> determine_trend x y = ''declining'' \<or>
   determine_trend x y = ''stable''"
  by (simp add: determine_trend_def Let_def)

lemma determine_trend_sufficient: "determine_trend x y \<noteq> ''insufficient_data''"
  using determine_trend_cases [of x y] by auto

lemma analyze_trend_short:
  assumes "length xs < 2"
  shows "analyze_trend xs ls =
           Inr \<lparr>trend = ''insufficient_data'', description = NotEnoughMessages,
                first_half_avg = 0, second_half_avg = 0, progression = [],
                key_moments = None, volatility = None\<rparr>"
  using assms by (simp add: analyze_trend_def)

lemma analyze_trend_long:
  assumes "\<not> length xs < 2" and "analyze_trend xs ls = Inr r"
  shows "trend r \<noteq> ''insufficient_data''"
proof -
  from assms(1) have ne: "xs \<noteq> []" by auto
  from assms ne obtain x y where "trend r = determine_trend x y"
    unfolding analyze_trend_def Let_def
    by (auto split: sum.splits)
  then show ?thesis by (simp add: determine_trend_sufficient)
qed

text \<open>
  Claim C6, as amended. \<open>analyze_trend\<close> returns the trend \<open>insufficient_data\<close> if and
  only if fewer than 2 scores are supplied. In that case both half averages are 0, the
  progression is empty, and the returned dictionary has no \<open>key_moments\<close> and no
  \<open>volatility\<close> entry; the helpers \<open>_identify_key_moments\<close> and
  \<open>_calculate_volatility\<close> themselves give the empty list and 0 on such scores.
\<close>

theorem insufficient_data_iff:
  "((\<exists>r. analyze_trend xs ls = Inr r \<and> trend r = ''insufficient_data'') \<longleftrightarrow> length xs < 2) \<and>
   (length xs < 2 \<longrightarrow>
      analyze_trend xs ls =
        Inr \<lparr>trend = ''insufficient_data'', description = NotEnoughMessages,
             first_half_avg = 0, second_half_avg = 0, progression = [],
             key_moments = None, volatility = None\<rparr> \<and>
      identify_key_moments xs ls = Inr [] \<and>
      calculate_volatility xs = 0)"
proof (intro conjI iffI impI)
  assume "\<exists>r. analyze_trend xs ls = Inr r \<and> trend r = ''insufficient_data''"
  then show "length xs < 2" using analyze_trend_long by blast
next
  assume "length xs < 2"
  then show "\<exists>r. analyze_trend xs ls = Inr r \<and> trend r = ''insufficient_data''"
    by (simp add: analyze_trend_short)
next
  assume "length xs < 2"
  then show "analyze_trend xs ls =
        Inr \<lparr>trend = ''insufficient_data'', description = NotEnoughMessages,
             first_half_avg = 0, second_half_avg = 0, progression = [],
             key_moments = None, volatility = None\<rparr>"
    by (rule analyze_trend_short)
next
  assume "length xs < 2"
  then show "identify_key_moments xs ls = Inr []" by (simp add: identify_key_moments_def)
next
  assume "length xs < 2"
  then show "calculate_volatility xs = 0" by (simp add: calculate_volatility_def)
qed

theorem insufficient_data_iff_witness:
  "length [1 / 2 :: real] < 2 \<and>
   analyze_trend [1 / 2] [''Positive''] =
     Inr \<lparr>trend = ''insufficient_data'', description = NotEnoughMessages,
          first_half_avg = 0, second_half_avg = 0, progression = [],
          key_moments = None, volatility = None\<rparr> \<and>
   identify_key_moments [1 / 2] [''Positive''] = Inr [] \<and>
   calculate_volatility [1 / 2] = 0"
  using insufficient_data_iff [of "[1 / 2]" "[''Positive'']"] by simp

text \<open>
  Claim C6 as stated asks for an empty \<open>key_moments\<close> sequence and a volatility of 0.0 in
  the result for fewer than 2 scores. For the single score 0.5 the result has neither
  entry.
\<close>

theorem insufficient_data_entries_absent:
  "analyze_trend [1 / 2] [''Positive''] =
     Inr \<lparr>trend = ''insufficient_data'', description = NotEnoughMessages,
          first_half_avg = 0, second_half_avg = 0, progression = [],
          key_moments = None, volatility = None\<rparr> \<and>
   key_moments (projr (analyze_trend [1 / 2] [''Positive''])) \<noteq> Some [] \<and>
   volatility (projr (analyze_trend [1 / 2] [''Positive''])) \<noteq> Some 0"
  by (simp add: analyze_trend_def)

subsection \<open>Insights\<close>

lemma summarize_insights_parts:
  "summarize_insights t ov =
     trend_sentence (trend t) # shift_part t @ distribution_part ov @ volatility_part t"
  unfolding summarize_insights_def trend_sentence_def Let_def
    shift_part_def distribution_part_def volatility_part_def
  by (simp split: option.split)

lemma trend_sentence_kind:
  "\<not> is_shift_sentence (trend_sentence tr) \<and> \<not> is_distribution_sentence (trend_sentence tr) \<and>
   \<not> is_volatility_sentence (trend_sentence tr)"
  by (simp add: trend_sentence_def is_shift_sentence_def is_distribution_sentence_def
      is_volatility_sentence_def)

lemma shift_part_kind:
  "length (shift_part t) \<le> 1 \<and>
   (\<forall>s \<in> set (shift_part t). \<not> is_distribution_sentence s \<and> \<not> is_volatility_sentence s)"
  by (auto simp add: shift_part_def is_distribution_sentence_def is_volatility_sentence_def
      split: option.splits if_splits)

lemma distribution_part_kind:
  "length (distribution_part ov) \<le> 1 \<and>
   (\<forall>s \<in> set (distribution_part ov). \<not> is_shift_sentence s \<and> \<not> is_volatility_sentence s)"
  by (auto simp add: distribution_part_def is_shift_sentence_def is_volatility_sentence_def
      split: option.splits if_splits)

lemma volatility_part_kind:
  "length (volatility_part t) \<le> 1 \<and>
   (\<forall>s \<in> set (volatility_part t). \<not> is_shift_sentence s \<and> \<not> is_distribution_sentence s) \<and>
   (volatility t = None \<longrightarrow>
      volatility_part t = [''Low sentiment volatility - consistent emotional tone''])"
  by (auto simp add: volatility_part_def is_shift_sentence_def is_distribution_sentence_def Let_def
      split: option.splits if_splits)

lemma filter_none: "(\<forall>s \<in> set xs. \<not> P s) \<Longrightarrow> filter P xs = []"
  by (induction xs) auto

lemma length_filter_le_1: "length xs \<le> 1 \<Longrightarrow> length (filter P xs) \<le> 1"
  using length_filter_le [of P xs] by linarith

text \<open>
  Claim C10. \<open>summarize_insights\<close> returns between 1 and 4 strings. The first is the
  sentence keyed on the trend, with the stable wording also for \<open>insufficient_data\<close>.
  The shift-count sentence, the distribution sentence and the volatility sentence occur
  at most once each. Without a \<open>volatility\<close> entry the default 0.0 is used, so the
  low-volatility sentence is the last one.
\<close>

theorem summarize_insights_shape:
  "1 \<le> length (summarize_insights t ov) \<and> length (summarize_insights t ov) \<le> 4 \<and>
   hd (summarize_insights t ov) = trend_sentence (trend t) \<and>
   (trend t = ''stable'' \<or> trend t = ''insufficient_data'' \<longrightarrow>
      hd (summarize_insights t ov) = ''Sentiment remained relatively consistent'') \<and>
   length (filter is_shift_sentence (summarize_insights t ov)) \<le> 1 \<and>
   length (filter is_distribution_sentence (summarize_insights t ov)) \<le> 1 \<and>
   length (filter is_volatility_sentence (summarize_insights t ov)) \<le> 1 \<and>
   (volatility t = None \<longrightarrow>
      last (summarize_insights t ov) = ''Low sentiment volatility - consistent emotional tone'')"
proof -
  note parts = summarize_insights_parts [of t ov]
  note a = shift_part_kind [of t] and b = distribution_part_kind [of ov]
    and c = volatility_part_kind [of t] and h = trend_sentence_kind [of "trend t"]
  have len: "1 \<le> length (summarize_insights t ov) \<and> length (summarize_insights t ov) \<le> 4"
    using a b c by (simp add: parts)
  have hd: "hd (summarize_insights t ov) = trend_sentence (trend t)"
    by (simp add: parts)
  have stable: "trend t = ''stable'' \<or> trend t = ''insufficient_data'' \<longrightarrow>
      hd (summarize_insights t ov) = ''Sentiment remained relatively consistent''"
    unfolding hd by (auto simp add: trend_sentence_def)
  have f1: "filter is_shift_sentence (summarize_insights t ov) = filter is_shift_sentence (shift_part t)"
    using h b c by (simp add: parts filter_none)
  have f2: "filter is_distribution_sentence (summarize_insights t ov) =
            filter is_distribution_sentence (distribution_part ov)"
    using h a c by (simp add: parts filter_none)
  have f3: "filter is_volatility_sentence (summarize_insights t ov) =
            filter is_volatility_sentence (volatility_part t)"
    using h a b by (simp add: parts filter_none)
  have l: "volatility t = None \<longrightarrow>
      last (summarize_insights t ov) = ''Low sentiment volatility - consistent emotional tone''"
    using c by (simp add: parts)
  have g1: "length (filter is_shift_sentence (summarize_insights t ov)) \<le> 1"
    unfolding f1 using a by (intro length_filter_le_1) simp
  have g2: "length (filter is_distribution_sentence (summarize_insights t ov)) \<le> 1"
    unfolding f2 using b by (intro length_filter_le_1) simp
  have g3: "length (filter is_volatility_sentence (summarize_insights t ov)) \<le> 1"
    unfolding f3 using c by (intro length_filter_le_1) simp
  from len hd stable g1 g2 g3 l show ?thesis by blast
qed

theorem summarize_insights_shape_witness:
  "volatility \<lparr>trend = ''insufficient_data'', description = NotEnoughMessages,
               first_half_avg = 0, second_half_avg = 0, progression = [],
               key_moments = None, volatility = None\<rparr> = None \<and>
   hd (summarize_insights
         \<lparr>trend = ''insufficient_data'', description = NotEnoughMessages,
          first_half_avg = 0, second_half_avg = 0, progression = [],
          key_moments = None, volatility = None\<rparr>
         (analyze_conversation no_format (VADERAnalyzer (constant_vader 0)) [])) =
     ''Sentiment remained relatively consistent'' \<and>
   last (summarize_insights
         \<lparr>trend = ''insufficient_data'', description = NotEnoughMessages,
          first_half_avg = 0, second_half_avg = 0, progression = [],
          key_moments = None, volatility = None\<rparr>
         (analyze_conversation no_format (VADERAnalyzer (constant_vader 0)) [])) =
     ''Low sentiment volatility - consistent emotional tone''"
proof -
  let ?t = "\<lparr>trend = ''insufficient_data'', description = NotEnoughMessages,
          first_half_avg = 0, second_half_avg = 0, progression = [],
          key_moments = None, volatility = None\<rparr>"
  let ?ov = "analyze_conversation no_format (VADERAnalyzer (constant_vader 0)) []"
  have v: "volatility ?t = None" by simp
  have tr: "trend ?t = ''stable'' \<or> trend ?t = ''insufficient_data''" by simp
  from summarize_insights_shape [of ?t ?ov]
  have "(trend ?t = ''stable'' \<or> trend ?t = ''insufficient_data'' \<longrightarrow>
           hd (summarize_insights ?t ?ov) = ''Sentiment remained relatively consistent'') \<and>
        (volatility ?t = None \<longrightarrow>
           last (summarize_insights ?t ?ov) =
             ''Low sentiment volatility - consistent emotional tone'')"
    by (elim conjE) (intro conjI)
  with v tr show ?thesis by blast
qed

subsection \<open>Pattern matching on the example texts\<close>

lemma patterns_bad:
  "search_any negative_comparative_patterns ''bad'' = False"
  "search_any positive_comparative_patterns ''bad'' = False"
  by code_simp+

lemma patterns_empty:
  "search_any negative_comparative_patterns [] = False"
  "search_any positive_comparative_patterns [] = False"
  by code_simp+

lemma patterns_spaces:
  "search_any negative_comparative_patterns ''   '' = False"
  "search_any positive_comparative_patterns ''   '' = False"
  by code_simp+

lemma patterns_pathetic: "search_any negative_comparative_patterns ''pathetic'' = True"
  by code_simp

lemma phrases_pathetic:
  "py_in ''pathetic'' (py_lower ''pathetic'') = True"
  "any_in pejorative_phrases (py_lower ''pathetic'') = False"
  "any_in find_phrases (py_lower ''pathetic'') = False"
  by code_simp+

lemma patterns_rubbish: "search_any negative_comparative_patterns ''rubbish'' = True"
  by code_simp

lemma phrases_rubbish: "any_in pejorative_phrases (py_lower ''rubbish'') = True"
  by code_simp

lemma patterns_used: "search_any negative_comparative_patterns ''used to be better'' = True"
  by code_simp

lemma phrases_used:
  "any_in pejorative_phrases (py_lower ''used to be better'') = False"
  "any_in find_phrases (py_lower ''used to be better'') = False"
  by code_simp+

lemma patterns_improved:
  "search_any negative_comparative_patterns ''better than before'' = False"
  "search_any positive_comparative_patterns ''better than before'' = True"
  by code_simp+

lemma blank_examples: "is_blank [] = True" "is_blank ''   '' = True" "is_blank ''bad'' = False"
  "is_blank ''pathetic'' = False" "is_blank ''rubbish'' = False"
  "is_blank ''used to be better'' = False"
  by code_simp+

subsection \<open>The adjuster\<close>

lemma clamp_fixed: "clamp_score (- (7 / 10)) = - (7 / 10)" "clamp_score (- (6 / 10)) = - (6 / 10)"
  "clamp_score (- (4 / 10)) = - (4 / 10)"
  by (simp_all add: clamp_score_def)

lemma detect_adjusted_label:
  assumes "adjusted_for_comparison base = None"
    and "adjusted_for_comparison (detect_comparative_sentiment a text base) = Some True"
  shows "label (detect_comparative_sentiment a text base) =
           get_label a (score (detect_comparative_sentiment a text base))"
  using assms
  by (auto simp add: detect_comparative_sentiment_def apply_adjustment_def Let_def split: if_splits)

lemma analyze_not_adjusted:
  "analyze a text = Inr base \<Longrightarrow> adjusted_for_comparison base = None"
  by (cases a) (auto simp add: plain_result_def Let_def split: if_splits sum.splits prod.splits)

lemma detect_unadjusted:
  assumes "adjusted_for_comparison base = None"
    and "adjusted_for_comparison (detect_comparative_sentiment a text base) \<noteq> Some True"
  shows "detect_comparative_sentiment a text base = base"
  using assms
  by (auto simp add: detect_comparative_sentiment_def apply_adjustment_def Let_def split: if_splits)

lemma analyze_vader_consistent:
  "analyze (VADERAnalyzer lib) text = Inr base \<Longrightarrow> label base = get_label (VADERAnalyzer lib) (score base)"
  by (auto simp add: plain_result_def split: if_splits sum.splits prod.splits)

lemma analyze_textblob_consistent:
  "analyze (TextBlobAnalyzer lib) text = Inr base \<Longrightarrow>
   label base = get_label (TextBlobAnalyzer lib) (score base)"
  by (auto simp add: plain_result_def split: if_splits sum.splits prod.splits)

lemma analyze_transformers_consistent:
  assumes "\<not> is_blank text" and "analyze (TransformersAnalyzer pipeline) text = Inr base"
  shows "label base = get_label (TransformersAnalyzer pipeline) (score base) \<longleftrightarrow>
         (case pipeline text of
            Inl e \<Rightarrow> True
          | Inr (lab, sc) \<Rightarrow> (lab = ''POSITIVE'' \<or> lab = ''NEGATIVE'') \<longrightarrow> sc > 1 / 2)"
  using assms
  by (auto simp add: plain_result_def split: if_splits sum.splits prod.splits)

lemma default_consistent: "label (plain_result 0 ''Neutral'' 0) = get_label a (score (plain_result 0 ''Neutral'' 0))"
  by (cases a) (simp_all add: plain_result_def)

lemma analyze_transformers_total: "\<exists>base. analyze (TransformersAnalyzer pipeline) text = Inr base"
  by (auto simp add: Let_def split: sum.splits prod.splits)

text \<open>
  Where the label agrees with \<open>get_label(score)\<close>: always for the VADER and TextBlob
  analyzers, and for any analyzer once the comparative adjuster has fired. For the
  Transformers analyzer on a non-blank text that is not adjusted, the label is the one
  the model reported; it agrees exactly when the pipeline failed, or reported a label
  other than POSITIVE and NEGATIVE, or reported a score above 0.5.
\<close>

lemma label_consistency_cases:
  "((\<forall>pipeline. a \<noteq> TransformersAnalyzer pipeline) \<longrightarrow>
      label (analyze_text a text) = get_label a (score (analyze_text a text))) \<and>
   (adjusted_for_comparison (analyze_text a text) = Some True \<longrightarrow>
      label (analyze_text a text) = get_label a (score (analyze_text a text))) \<and>
   (a = TransformersAnalyzer pipeline \<and> \<not> is_blank text \<and>
    adjusted_for_comparison (analyze_text a text) \<noteq> Some True \<longrightarrow>
      (label (analyze_text a text) = get_label a (score (analyze_text a text)) \<longleftrightarrow>
       (case pipeline text of
          Inl e \<Rightarrow> True
        | Inr (lab, sc) \<Rightarrow> (lab = ''POSITIVE'' \<or> lab = ''NEGATIVE'') \<longrightarrow> sc > 1 / 2)))"
proof (intro conjI impI)
  assume nt: "\<forall>pipeline. a \<noteq> TransformersAnalyzer pipeline"
  show "label (analyze_text a text) = get_label a (score (analyze_text a text))"
  proof (cases "analyze a text")
    case (Inl e)
    then show ?thesis by (simp add: analyze_text_def default_consistent)
  next
    case (Inr base)
    have base_ok: "label base = get_label a (score base)"
      using nt Inr analyze_vader_consistent analyze_textblob_consistent by (cases a) auto
    have none: "adjusted_for_comparison base = None" using Inr by (rule analyze_not_adjusted)
    show ?thesis
    proof (cases "adjusted_for_comparison (detect_comparative_sentiment a text base) = Some True")
      case True
      with none Inr show ?thesis by (simp add: analyze_text_def detect_adjusted_label)
    next
      case False
      with none have "detect_comparative_sentiment a text base = base" by (rule detect_unadjusted)
      with Inr base_ok show ?thesis by (simp add: analyze_text_def)
    qed
  qed
next
  assume adj: "adjusted_for_comparison (analyze_text a text) = Some True"
  show "label (analyze_text a text) = get_label a (score (analyze_text a text))"
  proof (cases "analyze a text")
    case (Inl e)
    with adj show ?thesis by (simp add: analyze_text_def plain_result_def)
  next
    case (Inr base)
    have none: "adjusted_for_comparison base = None" using Inr by (rule analyze_not_adjusted)
    from adj Inr have "adjusted_for_comparison (detect_comparative_sentiment a text base) = Some True"
      by (simp add: analyze_text_def)
    with none Inr show ?thesis by (simp add: analyze_text_def detect_adjusted_label)
  qed
next
  assume h: "a = TransformersAnalyzer pipeline \<and> \<not> is_blank text \<and>
    adjusted_for_comparison (analyze_text a text) \<noteq> Some True"
  obtain base where base: "analyze a text = Inr base"
    using h analyze_transformers_total by blast
  have none: "adjusted_for_comparison base = None" using base by (rule analyze_not_adjusted)
  have run: "analyze_text a text = detect_comparative_sentiment a text base"
    using base by (simp add: analyze_text_def)
  from h have "adjusted_for_comparison (analyze_text a text) \<noteq> Some True" by blast
  then have "adjusted_for_comparison (detect_comparative_sentiment a text base) \<noteq> Some True"
    by (simp add: run)
  with none have "detect_comparative_sentiment a text base = base" by (rule detect_unadjusted)
  with run have eq: "analyze_text a text = base" by simp
  from h base have "\<not> is_blank text" and "analyze (TransformersAnalyzer pipeline) text = Inr base"
    by simp_all
  from analyze_transformers_consistent [OF this] h
  show "label (analyze_text a text) = get_label a (score (analyze_text a text)) \<longleftrightarrow>
       (case pipeline text of
          Inl e \<Rightarrow> True
        | Inr (lab, sc) \<Rightarrow> (lab = ''POSITIVE'' \<or> lab = ''NEGATIVE'') \<longrightarrow> sc > 1 / 2)"
    unfolding eq by blast
qed

text \<open>
  The pipeline of the engine is a two-class classifier that reports its better class, so
  its score is above 0.5 (a tie apart). Under that reading the label agrees with
  \<open>get_label(score)\<close> on every non-blank text, for every analyzer; and an adjustment
  re-derives the confidence as well.
\<close>

lemma label_consistent_non_blank:
  assumes "\<And>pipeline. a = TransformersAnalyzer pipeline \<Longrightarrow>
             \<not> is_blank text \<and> (\<forall>lab sc. pipeline text = Inr (lab, sc) \<longrightarrow> sc > 1 / 2)"
  shows "label (analyze_text a text) = get_label a (score (analyze_text a text))"
proof (cases a)
  case (VADERAnalyzer lib)
  then have "\<forall>pipeline. a \<noteq> TransformersAnalyzer pipeline" by simp
  with label_consistency_cases [of a "text"] show ?thesis by blast
next
  case (TextBlobAnalyzer lib)
  then have "\<forall>pipeline. a \<noteq> TransformersAnalyzer pipeline" by simp
  with label_consistency_cases [of a "text"] show ?thesis by blast
next
  case (TransformersAnalyzer pipeline)
  from assms [OF this] have nb: "\<not> is_blank text"
    and sc: "\<forall>lab sc. pipeline text = Inr (lab, sc) \<longrightarrow> sc > 1 / 2"
    by simp_all
  have ok: "(case pipeline text of
               Inl e \<Rightarrow> True
             | Inr (lab, sc) \<Rightarrow> (lab = ''POSITIVE'' \<or> lab = ''NEGATIVE'') \<longrightarrow> sc > 1 / 2)"
    using sc by (auto split: sum.splits)
  show ?thesis
  proof (cases "adjusted_for_comparison (analyze_text a text) = Some True")
    case True
    with label_consistency_cases [of a "text"] show ?thesis by blast
  next
    case False
    with label_consistency_cases [of a "text" pipeline] TransformersAnalyzer nb ok
    show ?thesis by blast
  qed
qed

lemma adjusted_confidence:
  assumes "adjusted_for_comparison (analyze_text a text) = Some True"
  shows "confidence (analyze_text a text) = \<bar>score (analyze_text a text)\<bar>"
proof (cases "analyze a text")
  case (Inl e)
  with assms show ?thesis by (simp add: analyze_text_def plain_result_def)
next
  case (Inr base)
  have none: "adjusted_for_comparison base = None" using Inr by (rule analyze_not_adjusted)
  from assms Inr
  have adj: "adjusted_for_comparison (detect_comparative_sentiment a text base) = Some True"
    by (simp add: analyze_text_def)
  have "confidence (detect_comparative_sentiment a text base) =
          \<bar>score (detect_comparative_sentiment a text base)\<bar>"
    using none adj
    by (auto simp add: detect_comparative_sentiment_def apply_adjustment_def Let_def
        split: if_splits)
  with Inr show ?thesis by (simp add: analyze_text_def)
qed

text \<open>
  Claim C1 asks that \<open>label = get_label(score)\<close> hold for the result of
  \<open>analyze_text\<close> on every text and for every analyzer. The Transformers analyzer breaks
  it on an empty or whitespace-only text: the result has score 0.0 and the label
  \<open>NEUTRAL\<close>, while \<open>get_label(0.0)\<close> is \<open>Neutral\<close>.
\<close>

theorem blank_text_label_mismatch:
  "score (analyze_text (TransformersAnalyzer pipeline) []) = 0 \<and>
   label (analyze_text (TransformersAnalyzer pipeline) []) \<noteq>
     get_label (TransformersAnalyzer pipeline)
       (score (analyze_text (TransformersAnalyzer pipeline) [])) \<and>
   score (analyze_text (TransformersAnalyzer pipeline) ''   '') = 0 \<and>
   label (analyze_text (TransformersAnalyzer pipeline) ''   '') \<noteq>
     get_label (TransformersAnalyzer pipeline)
       (score (analyze_text (TransformersAnalyzer pipeline) ''   ''))"
  by (simp add: analyze_text_def detect_comparative_sentiment_def patterns_empty patterns_spaces
      blank_examples plain_result_def)

lemma run_vader:
  "\<not> is_blank text \<Longrightarrow>
   analyze_text (VADERAnalyzer (constant_vader c)) text =
     detect_comparative_sentiment (VADERAnalyzer (constant_vader c)) text
       ((plain_result c (get_label (VADERAnalyzer (constant_vader c)) c) \<bar>c\<bar>)
          \<lparr>compound := Some c, positive := Some 0, neutral := Some 1, negative := Some 0\<rparr>)"
  by (simp add: analyze_text_def constant_vader_def)

text \<open>
  Claim C2, as amended. For every text that matches a negative pattern and whose
  lower-cased form contains one of \<open>rubbish\<close>, \<open>nonsense\<close>, \<open>garbage\<close>, \<open>trash\<close>,
  \<open>crap\<close>, \<open>stupid\<close>, \<open>idiotic\<close>, the adjuster sets the score to -0.7 (label and
  confidence re-derived from it), whatever the other rules would give.
\<close>

theorem pejorative_rule_first:
  "search_any negative_comparative_patterns text \<Longrightarrow>
   any_in pejorative_phrases (py_lower text) \<Longrightarrow>
   score (detect_comparative_sentiment a text base) = - (7 / 10) \<and>
   label (detect_comparative_sentiment a text base) = get_label a (- (7 / 10)) \<and>
   confidence (detect_comparative_sentiment a text base) = 7 / 10 \<and>
   (analyze a text = Inr base \<longrightarrow> score (analyze_text a text) = - (7 / 10))"
  by (simp add: analyze_text_def detect_comparative_sentiment_def apply_adjustment_def
      negative_adjusted_score_def clamp_fixed Let_def)

theorem pejorative_rule_first_witness:
  "search_any negative_comparative_patterns ''rubbish'' \<and>
   any_in pejorative_phrases (py_lower ''rubbish'') \<and>
   score (detect_comparative_sentiment (VADERAnalyzer (constant_vader (1 / 2))) ''rubbish''
            (plain_result (1 / 2) ''Positive'' (1 / 2))) = - (7 / 10)"
  using pejorative_rule_first [of "''rubbish''" "VADERAnalyzer (constant_vader (1 / 2))"
      "plain_result (1 / 2) ''Positive'' (1 / 2)"]
  by (simp add: patterns_rubbish phrases_rubbish)

text \<open>
  Claim C2 as stated names \<open>pathetic\<close> among the words that give -0.7. The text
  \<open>pathetic\<close> matches a negative pattern and contains the word, yet with a base score
  of -0.5 the adjusted score is -0.9, by the rule \<open>original - 0.4\<close>.
\<close>

theorem pathetic_not_fixed_score:
  "search_any negative_comparative_patterns ''pathetic'' \<and>
   py_in ''pathetic'' (py_lower ''pathetic'') \<and>
   score (analyze_text (VADERAnalyzer (constant_vader (- (1 / 2)))) ''pathetic'') = - (9 / 10) \<and>
   score (analyze_text (VADERAnalyzer (constant_vader (- (1 / 2)))) ''pathetic'') \<noteq> - (7 / 10)"
  by (simp add: run_vader blank_examples detect_comparative_sentiment_def apply_adjustment_def
      negative_adjusted_score_def clamp_score_def patterns_pathetic phrases_pathetic
      plain_result_def Let_def)

subsection \<open>Re-applying the adjuster\<close>

lemma negative_adjusted_negative:
  "\<not> any_in pejorative_phrases lo \<Longrightarrow> \<not> any_in find_phrases lo \<Longrightarrow>
   clamp_score (negative_adjusted_score lo s) < 0"
  by (auto simp add: negative_adjusted_score_def clamp_score_def)

lemma positive_adjusted_positive: "clamp_score (positive_adjusted_score s) > 0"
  by (auto simp add: positive_adjusted_score_def clamp_score_def)

text \<open>
  Claim C7, as amended. Applying the adjustment step to a result already adjusted for
  the same text leaves the result unchanged when no pattern matches, and when a negative
  pattern matches and one of the fixed-score rules (pejorative phrase, or a
  \<open>find\<close> phrase) decides. Under the two remaining negative rules the second
  application subtracts 0.4 again, down to -1; under the positive rule it adds 0.2
  again, up to 1.
\<close>

theorem adjuster_reapplied:
  "(\<not> search_any negative_comparative_patterns text \<and>
    \<not> search_any positive_comparative_patterns text \<longrightarrow>
      detect_comparative_sentiment a text (detect_comparative_sentiment a text r) =
      detect_comparative_sentiment a text r) \<and>
   (search_any negative_comparative_patterns text \<and>
    (any_in pejorative_phrases (py_lower text) \<or> any_in find_phrases (py_lower text)) \<longrightarrow>
      detect_comparative_sentiment a text (detect_comparative_sentiment a text r) =
      detect_comparative_sentiment a text r) \<and>
   (search_any negative_comparative_patterns text \<and>
    \<not> any_in pejorative_phrases (py_lower text) \<and> \<not> any_in find_phrases (py_lower text) \<longrightarrow>
      score (detect_comparative_sentiment a text (detect_comparative_sentiment a text r)) =
      max (- 1) (score (detect_comparative_sentiment a text r) - 4 / 10)) \<and>
   (\<not> search_any negative_comparative_patterns text \<and>
    search_any positive_comparative_patterns text \<longrightarrow>
      score (detect_comparative_sentiment a text (detect_comparative_sentiment a text r)) =
      min 1 (score (detect_comparative_sentiment a text r) + 2 / 10))"
proof (intro conjI impI)
  assume "\<not> search_any negative_comparative_patterns text \<and>
    \<not> search_any positive_comparative_patterns text"
  then show "detect_comparative_sentiment a text (detect_comparative_sentiment a text r) =
      detect_comparative_sentiment a text r"
    by (simp add: detect_comparative_sentiment_def)
next
  assume "search_any negative_comparative_patterns text \<and>
    (any_in pejorative_phrases (py_lower text) \<or> any_in find_phrases (py_lower text))"
  then show "detect_comparative_sentiment a text (detect_comparative_sentiment a text r) =
      detect_comparative_sentiment a text r"
    by (auto simp add: detect_comparative_sentiment_def apply_adjustment_def
        negative_adjusted_score_def Let_def)
next
  assume h: "search_any negative_comparative_patterns text \<and>
    \<not> any_in pejorative_phrases (py_lower text) \<and> \<not> any_in find_phrases (py_lower text)"
  define s1 where "s1 = clamp_score (negative_adjusted_score (py_lower text) (score r))"
  have neg: "s1 < 0" unfolding s1_def using h by (simp add: negative_adjusted_negative)
  have r1: "score (detect_comparative_sentiment a text r) = s1"
    using h by (simp add: detect_comparative_sentiment_def apply_adjustment_def Let_def s1_def)
  have "score (detect_comparative_sentiment a text (detect_comparative_sentiment a text r)) =
        clamp_score (negative_adjusted_score (py_lower text) s1)"
    using h r1 by (simp add: detect_comparative_sentiment_def apply_adjustment_def Let_def)
  also have "\<dots> = max (- 1) (s1 - 4 / 10)"
    using h neg by (simp add: negative_adjusted_score_def clamp_score_def)
  finally show "score (detect_comparative_sentiment a text (detect_comparative_sentiment a text r)) =
      max (- 1) (score (detect_comparative_sentiment a text r) - 4 / 10)"
    by (simp add: r1)
next
  assume h: "\<not> search_any negative_comparative_patterns text \<and>
    search_any positive_comparative_patterns text"
  define s1 where "s1 = clamp_score (positive_adjusted_score (score r))"
  have pos: "s1 > 0" unfolding s1_def by (rule positive_adjusted_positive)
  have r1: "score (detect_comparative_sentiment a text r) = s1"
    using h by (simp add: detect_comparative_sentiment_def apply_adjustment_def Let_def s1_def)
  have "score (detect_comparative_sentiment a text (detect_comparative_sentiment a text r)) =
        clamp_score (positive_adjusted_score s1)"
    using h r1 by (simp add: detect_comparative_sentiment_def apply_adjustment_def Let_def)
  also have "\<dots> = min 1 (s1 + 2 / 10)"
    using pos by (simp add: positive_adjusted_score_def clamp_score_def)
  finally show "score (detect_comparative_sentiment a text (detect_comparative_sentiment a text r)) =
      min 1 (score (detect_comparative_sentiment a text r) + 2 / 10)"
    by (simp add: r1)
qed

theorem adjuster_reapplied_witness:
  "\<not> search_any negative_comparative_patterns ''bad'' \<and>
   \<not> search_any positive_comparative_patterns ''bad'' \<and>
   detect_comparative_sentiment (VADERAnalyzer (constant_vader 0)) ''bad''
     (detect_comparative_sentiment (VADERAnalyzer (constant_vader 0)) ''bad''
        (plain_result (3 / 10) ''Positive'' (3 / 10))) =
   detect_comparative_sentiment (VADERAnalyzer (constant_vader 0)) ''bad''
     (plain_result (3 / 10) ''Positive'' (3 / 10)) \<and>
   search_any negative_comparative_patterns ''rubbish'' \<and>
   any_in pejorative_phrases (py_lower ''rubbish'') \<and>
   detect_comparative_sentiment (VADERAnalyzer (constant_vader 0)) ''rubbish''
     (detect_comparative_sentiment (VADERAnalyzer (constant_vader 0)) ''rubbish''
        (plain_result (3 / 10) ''Positive'' (3 / 10))) =
   detect_comparative_sentiment (VADERAnalyzer (constant_vader 0)) ''rubbish''
     (plain_result (3 / 10) ''Positive'' (3 / 10)) \<and>
   search_any negative_comparative_patterns ''used to be better'' \<and>
   \<not> any_in pejorative_phrases (py_lower ''used to be better'') \<and>
   \<not> any_in find_phrases (py_lower ''used to be better'') \<and>
   score (detect_comparative_sentiment (VADERAnalyzer (constant_vader 0)) ''used to be better''
     (detect_comparative_sentiment (VADERAnalyzer (constant_vader 0)) ''used to be better''
        (plain_result (3 / 10) ''Positive'' (3 / 10)))) =
   max (- 1) (score (detect_comparative_sentiment (VADERAnalyzer (constant_vader 0))
     ''used to be better'' (plain_result (3 / 10) ''Positive'' (3 / 10))) - 4 / 10) \<and>
   \<not> search_any negative_comparative_patterns ''better than before'' \<and>
   search_any positive_comparative_patterns ''better than before'' \<and>
   score (detect_comparative_sentiment (VADERAnalyzer (constant_vader 0)) ''better than before''
     (detect_comparative_sentiment (VADERAnalyzer (constant_vader 0)) ''better than before''
        (plain_result (3 / 10) ''Positive'' (3 / 10)))) =
   min 1 (score (detect_comparative_sentiment (VADERAnalyzer (constant_vader 0))
     ''better than before'' (plain_result (3 / 10) ''Positive'' (3 / 10))) + 2 / 10)"
proof -
  let ?a = "VADERAnalyzer (constant_vader 0)"
  let ?r = "plain_result (3 / 10) ''Positive'' (3 / 10)"
  have b1: "\<not> search_any negative_comparative_patterns ''bad''"
    and b2: "\<not> search_any positive_comparative_patterns ''bad''"
    by (simp_all add: patterns_bad)
  have r1: "search_any negative_comparative_patterns ''rubbish''"
    and r2: "any_in pejorative_phrases (py_lower ''rubbish'')"
    by (simp_all add: patterns_rubbish phrases_rubbish)
  have u1: "search_any negative_comparative_patterns ''used to be better''"
    and u2: "\<not> any_in pejorative_phrases (py_lower ''used to be better'')"
    and u3: "\<not> any_in find_phrases (py_lower ''used to be better'')"
    by (simp_all add: patterns_used phrases_used)
  have i1: "\<not> search_any negative_comparative_patterns ''better than before''"
    and i2: "search_any positive_comparative_patterns ''better than before''"
    by (simp_all add: patterns_improved)
  note c1 = adjuster_reapplied [of "''bad''" ?a ?r, THEN conjunct1, THEN mp, OF conjI [OF b1 b2]]
  note c2 = adjuster_reapplied [of "''rubbish''" ?a ?r, THEN conjunct2, THEN conjunct1, THEN mp,
      OF conjI [OF r1 disjI1 [OF r2]]]
  note c3 = adjuster_reapplied [of "''used to be better''" ?a ?r, THEN conjunct2, THEN conjunct2,
      THEN conjunct1, THEN mp, OF conjI [OF u1 conjI [OF u2 u3]]]
  note c4 = adjuster_reapplied [of "''better than before''" ?a ?r, THEN conjunct2, THEN conjunct2,
      THEN conjunct2, THEN mp, OF conjI [OF i1 i2]]
  show ?thesis
    by (intro conjI b1 b2 c1 r1 r2 c2 u1 u2 u3 c3 i1 i2 c4)
qed

text \<open>
  Claim C7 as stated fails: on \<open>used to be better\<close> with base score 0.3 the analysis
  gives -0.7, and the adjustment step applied to that result gives -1.0.
\<close>

theorem adjuster_penalises_twice:
  "score (analyze_text (VADERAnalyzer (constant_vader (3 / 10))) ''used to be better'') = - (7 / 10) \<and>
   score (detect_comparative_sentiment (VADERAnalyzer (constant_vader (3 / 10))) ''used to be better''
            (analyze_text (VADERAnalyzer (constant_vader (3 / 10))) ''used to be better'')) = - 1"
  by (simp add: run_vader blank_examples detect_comparative_sentiment_def apply_adjustment_def
      negative_adjusted_score_def clamp_score_def patterns_used phrases_used
      plain_result_def Let_def)

subsection \<open>Blank texts\<close>

lemma analyze_vader_blank:
  "is_blank text \<Longrightarrow>
   analyze (VADERAnalyzer lib) text =
     Inr ((plain_result 0 ''Neutral'' 0)
            \<lparr>compound := Some 0, positive := Some 0, neutral := Some 0, negative := Some 0\<rparr>)"
  by simp

lemma analyze_textblob_blank:
  "is_blank text \<Longrightarrow>
   analyze (TextBlobAnalyzer lib) text =
     Inr ((plain_result 0 ''Neutral'' 0)\<lparr>polarity := Some 0, subjectivity := Some 0\<rparr>)"
  by simp

lemma analyze_text_failure: "analyze a text = Inl e \<Longrightarrow> analyze_text a text = plain_result 0 ''Neutral'' 0"
  by (simp add: analyze_text_def)

text \<open>
  Claim C5 asks that every analyzer return the label \<open>Neutral\<close> with score and
  confidence 0.0 for an empty or whitespace-only text. The Transformers analyzer returns
  the label \<open>NEUTRAL\<close> there, which is not the label \<open>get_label\<close> gives for 0.0; the
  VADER and TextBlob analyzers and the failure path of \<open>analyze_text\<close> return
  \<open>Neutral\<close>.
\<close>

theorem transformers_blank_label:
  "analyze (TransformersAnalyzer pipeline) [] = Inr (plain_result 0 ''NEUTRAL'' 0) \<and>
   analyze (TransformersAnalyzer pipeline) ''   '' = Inr (plain_result 0 ''NEUTRAL'' 0) \<and>
   label (analyze_text (TransformersAnalyzer pipeline) []) = ''NEUTRAL'' \<and>
   get_label (TransformersAnalyzer pipeline)
     (score (analyze_text (TransformersAnalyzer pipeline) [])) = ''Neutral''"
  by (simp add: analyze_text_def detect_comparative_sentiment_def patterns_empty blank_examples
      plain_result_def)

subsection \<open>Conversation analysis\<close>

lemma overall_label_negative_majority:
  "negative_count > positive_count \<Longrightarrow>
   overall_label_of positive_count negative_count sn sp avg = ''Negative''"
  by (simp add: overall_label_of_def)

lemma message_text_valid: "message_text m = None \<longleftrightarrow> \<not> is_valid_message m"
  by (cases m) (auto simp add: message_text_def is_valid_message_def)

lemma map_filter_valid:
  "List.map_filter message_text (filter is_valid_message msgs) = List.map_filter message_text msgs"
proof (induction msgs)
  case Nil
  then show ?case by simp
next
  case (Cons m msgs)
  show ?case
  proof (cases "message_text m")
    case None
    then have "\<not> is_valid_message m" by (simp add: message_text_valid)
    with None Cons show ?thesis by (simp add: List.map_filter_simps)
  next
    case (Some t)
    then have "is_valid_message m" using message_text_valid [of m] by auto
    with Some Cons show ?thesis by (simp add: List.map_filter_simps)
  qed
qed

lemma map_filter_invalid:
  "\<forall>m \<in> set msgs. \<not> is_valid_message m \<Longrightarrow> List.map_filter message_text msgs = []"
  by (induction msgs) (simp_all add: List.map_filter_simps message_text_valid [symmetric])

lemma analyze_conversation_full:
  assumes "msgs \<noteq> []" and "List.map_filter message_text msgs \<noteq> []"
  shows "\<exists>sn sp avg.
           labels (analyze_conversation fmt a msgs) =
             Some (map label (map (analyze_text a) (List.map_filter message_text msgs))) \<and>
           overall_sentiment (analyze_conversation fmt a msgs) =
             overall_label_of
               (count_list (map label (map (analyze_text a) (List.map_filter message_text msgs)))
                  ''Positive'')
               (count_list (map label (map (analyze_text a) (List.map_filter message_text msgs)))
                  ''Negative'')
               sn sp avg"
  using assms unfolding analyze_conversation_def Let_def
  by (simp del: map_map) blast

lemma analyze_conversation_labels_none:
  assumes "msgs = [] \<or> List.map_filter message_text msgs = []"
  shows "labels (analyze_conversation fmt a msgs) = None"
  using assms by (auto simp add: analyze_conversation_def Let_def)

text \<open>
  Claim C3. The first rule of the overall-sentiment decision gives Negative whenever
  \<open>negative_count > positive_count\<close> and the difference is at least 1 or some score is
  below -0.3; so the overall sentiment of a conversation is Negative whenever the
  messages labelled Negative outnumber those labelled Positive, whatever the average.
\<close>

theorem negative_majority_is_negative:
  "(negative_count > positive_count \<and>
    (int negative_count - int positive_count \<ge> 1 \<or> strong_negative_count > 0) \<longrightarrow>
      overall_label_of positive_count negative_count strong_negative_count strong_positive_count
        avg_score = ''Negative'') \<and>
   (labels (analyze_conversation fmt a msgs) = Some ls \<and>
    count_list ls ''Negative'' > count_list ls ''Positive'' \<longrightarrow>
      overall_sentiment (analyze_conversation fmt a msgs) = ''Negative'')"
proof (intro conjI impI)
  assume "negative_count > positive_count \<and>
    (int negative_count - int positive_count \<ge> 1 \<or> strong_negative_count > 0)"
  then show "overall_label_of positive_count negative_count strong_negative_count
      strong_positive_count avg_score = ''Negative''"
    by (simp add: overall_label_negative_majority)
next
  assume h: "labels (analyze_conversation fmt a msgs) = Some ls \<and>
    count_list ls ''Negative'' > count_list ls ''Positive''"
  then have ne: "msgs \<noteq> []" "List.map_filter message_text msgs \<noteq> []"
    using analyze_conversation_labels_none [of msgs fmt a] by auto
  from analyze_conversation_full [OF ne, of fmt a] obtain sn sp avg where
    l: "labels (analyze_conversation fmt a msgs) =
          Some (map label (map (analyze_text a) (List.map_filter message_text msgs)))" and
    o: "overall_sentiment (analyze_conversation fmt a msgs) =
          overall_label_of
            (count_list (map label (map (analyze_text a) (List.map_filter message_text msgs)))
               ''Positive'')
            (count_list (map label (map (analyze_text a) (List.map_filter message_text msgs)))
               ''Negative'')
            sn sp avg"
    by blast
  from h l have "ls = map label (map (analyze_text a) (List.map_filter message_text msgs))"
    by simp
  with h o show "overall_sentiment (analyze_conversation fmt a msgs) = ''Negative''"
    by (simp add: overall_label_negative_majority)
qed

lemma run_vader_bad:
  "analyze_text (VADERAnalyzer (constant_vader c)) ''bad'' =
     (plain_result c (get_label (VADERAnalyzer (constant_vader c)) c) \<bar>c\<bar>)
       \<lparr>compound := Some c, positive := Some 0, neutral := Some 1, negative := Some 0\<rparr>"
  by (simp add: analyze_text_def constant_vader_def blank_examples detect_comparative_sentiment_def
      patterns_bad)

theorem negative_majority_is_negative_witness:
  "labels (analyze_conversation no_format (VADERAnalyzer (constant_vader (- (1 / 2))))
             [StrMsg ''bad'']) = Some [''Negative''] \<and>
   count_list [''Negative''] ''Negative'' > count_list [''Negative''] ''Positive'' \<and>
   overall_sentiment (analyze_conversation no_format (VADERAnalyzer (constant_vader (- (1 / 2))))
             [StrMsg ''bad'']) = ''Negative''"
proof -
  let ?a = "VADERAnalyzer (constant_vader (- (1 / 2)))"
  have l: "labels (analyze_conversation no_format ?a [StrMsg ''bad'']) = Some [''Negative'']"
    by (simp add: analyze_conversation_def message_text_def run_vader_bad plain_result_def Let_def)
  have c: "count_list [''Negative''] ''Negative'' > count_list [''Negative''] ''Positive''"
    by simp
  note w = negative_majority_is_negative [of _ _ _ _ _ no_format ?a "[StrMsg ''bad'']" "[''Negative'']",
      THEN conjunct2, THEN mp, OF conjI [OF l c]]
  show ?thesis by (intro conjI l c w)
qed

text \<open>
  Claim C9. \<open>analyze_conversation\<close> skips every element that is neither a string nor a
  dictionary with a \<open>text\<close> entry. A non-empty list of such elements only gives the
  Neutral result with average 0.0, no messages and the reasoning
  \<open>No valid messages to analyze\<close>, which differs from the reasoning
  \<open>No messages to analyze\<close> of the empty list.
\<close>

theorem invalid_messages_skipped:
  "(msgs \<noteq> [] \<and> (\<forall>m \<in> set msgs. \<not> is_valid_message m) \<longrightarrow>
      analyze_conversation fmt a msgs =
        \<lparr>overall_sentiment = ''Neutral'', average_score = 0, total_messages = 0,
         reasoning = ''No valid messages to analyze'', label_distribution = None,
         scores = None, labels = None\<rparr>) \<and>
   analyze_conversation fmt a [] =
     \<lparr>overall_sentiment = ''Neutral'', average_score = 0, total_messages = 0,
      reasoning = ''No messages to analyze'', label_distribution = None,
      scores = None, labels = None\<rparr> \<and>
   ''No valid messages to analyze'' \<noteq> ''No messages to analyze'' \<and>
   (filter is_valid_message msgs \<noteq> [] \<longrightarrow>
      analyze_conversation fmt a msgs = analyze_conversation fmt a (filter is_valid_message msgs))"
proof (intro conjI impI)
  assume "msgs \<noteq> [] \<and> (\<forall>m \<in> set msgs. \<not> is_valid_message m)"
  then show "analyze_conversation fmt a msgs =
        \<lparr>overall_sentiment = ''Neutral'', average_score = 0, total_messages = 0,
         reasoning = ''No valid messages to analyze'', label_distribution = None,
         scores = None, labels = None\<rparr>"
    by (simp add: analyze_conversation_def map_filter_invalid)
next
  show "analyze_conversation fmt a [] =
     \<lparr>overall_sentiment = ''Neutral'', average_score = 0, total_messages = 0,
      reasoning = ''No messages to analyze'', label_distribution = None,
      scores = None, labels = None\<rparr>"
    by (simp add: analyze_conversation_def)
next
  show "''No valid messages to analyze'' \<noteq> ''No messages to analyze''" by simp
next
  assume ne: "filter is_valid_message msgs \<noteq> []"
  then have "msgs \<noteq> []" by auto
  with ne show "analyze_conversation fmt a msgs =
      analyze_conversation fmt a (filter is_valid_message msgs)"
    unfolding analyze_conversation_def map_filter_valid by simp
qed

theorem invalid_messages_skipped_witness:
  "[OtherMsg, DictMsg [''sender'' \<mapsto> ''user'']] \<noteq> [] \<and>
   \<not> is_valid_message OtherMsg \<and>
   \<not> is_valid_message (DictMsg [''sender'' \<mapsto> ''user'']) \<and>
   reasoning (analyze_conversation no_format (VADERAnalyzer (constant_vader 0))
                [OtherMsg, DictMsg [''sender'' \<mapsto> ''user'']]) =
     ''No valid messages to analyze'' \<and>
   filter is_valid_message [OtherMsg, StrMsg ''bad''] \<noteq> [] \<and>
   analyze_conversation no_format (VADERAnalyzer (constant_vader 0)) [OtherMsg, StrMsg ''bad''] =
   analyze_conversation no_format (VADERAnalyzer (constant_vader 0))
     (filter is_valid_message [OtherMsg, StrMsg ''bad''])"
proof -
  let ?a = "VADERAnalyzer (constant_vader 0)"
  let ?m = "[OtherMsg, DictMsg [''sender'' \<mapsto> ''user'']]"
  have h1: "?m \<noteq> []" by simp
  have h2: "\<forall>m \<in> set ?m. \<not> is_valid_message m" by (simp add: is_valid_message_def)
  have h3: "filter is_valid_message [OtherMsg, StrMsg ''bad''] \<noteq> []"
    by (simp add: is_valid_message_def)
  note t1 = invalid_messages_skipped [of ?m no_format ?a, THEN conjunct1, THEN mp, OF conjI [OF h1 h2]]
  note t2 = invalid_messages_skipped [of "[OtherMsg, StrMsg ''bad'']" no_format ?a,
      THEN conjunct2, THEN conjunct2, THEN conjunct2, THEN mp, OF h3]
  have r: "reasoning (analyze_conversation no_format ?a ?m) = ''No valid messages to analyze''"
    unfolding t1 by simp
  have v1: "\<not> is_valid_message OtherMsg"
    and v2: "\<not> is_valid_message (DictMsg [''sender'' \<mapsto> ''user''])"
    by (simp_all add: is_valid_message_def)
  show ?thesis by (intro conjI h1 v1 v2 r h3 t2)
qed

end
